theory Spec2Isabelle
  imports Main "HOL-Library.Word"
begin

section \<open>Go values and the JSON shapes of the decoders\<close>

text \<open>
  A value of Go's \<^verbatim>\<open>interface{}\<close> as \<^verbatim>\<open>encoding/json\<close> produces it: \<^verbatim>\<open>nil\<close> (JSON null),
  a bool, a \<^verbatim>\<open>float64\<close>, a string, a slice or a map. The handlers never compute on a
  number, so the model is parametric in the type \<open>'n\<close> that stands for \<^verbatim>\<open>float64\<close>.
\<close>

datatype 'n goval =
    VNil
  | VBool bool
  | VFloat 'n
  | VString string
  | VSlice "'n goval list"
  | VMap "string \<Rightarrow> 'n goval option"

text \<open>
  A \<^verbatim>\<open>map[string]interface{}\<close>. \<open>None\<close> is the nil map (what a JSON \<^verbatim>\<open>null\<close> decodes to);
  \<open>Some Map.empty\<close> is the empty map literal \<^verbatim>\<open>map[string]interface{}{}\<close>.
\<close>

type_synonym 'n gomap = "(string \<Rightarrow> 'n goval option) option"

text \<open>\<^verbatim>\<open>m[k]\<close>: a missing key, and any key of the nil map, reads as \<^verbatim>\<open>nil\<close>.\<close>

definition index :: "'n gomap \<Rightarrow> string \<Rightarrow> 'n goval" where
  "index m k =
     (case m of
        None \<Rightarrow> VNil
      | Some f \<Rightarrow> (case f k of None \<Rightarrow> VNil | Some v \<Rightarrow> v))"

text \<open>\<^verbatim>\<open>type NHTSAResponse struct\<close> (part_000 lines 17-22, part_001 lines 23-28).\<close>

record 'n NHTSAResponse =
  Count :: "64 word"
  Message :: string
  SearchCriteria :: string
  Results :: "'n gomap list"

text \<open>\<^verbatim>\<open>type Model struct\<close> and \<^verbatim>\<open>type APIResponse struct\<close> (main.go lines 43-70).\<close>

record Model =
  Make :: string
  MakeID :: string
  Year :: "64 word"
  Model :: string
  ModelID :: "64 word"
  ModelType :: string
  ModelNo :: string
  MSRP :: "64 word"
  LowRetail :: "64 word"
  AverageRetail :: "64 word"
  LowTrade :: "64 word"
  HighTrade :: "64 word"
  AverageWholesale :: "64 word"
  Transmission :: string
  Weight :: "64 word"
  EngineCC :: "64 word"
  Stroke :: "64 word"
  Cylinders :: "64 word"

record APIResponse =
  Status :: string
  Models :: "Model list"
  VintageModels :: "Model list"

text \<open>\<^verbatim>\<open>type AppConfig struct\<close> (main.go lines 17-22).\<close>

record AppConfig =
  JDPUser :: string
  JDPPass :: string
  BaseURL :: string

section \<open>The network\<close>

text \<open>
  An outgoing request, and what \<^verbatim>\<open>net/http\<close> hands back. The body of a response is the
  result of \<^verbatim>\<open>io.ReadAll(resp.Body)\<close>: \<open>Inl\<close> a read error, \<open>Inr\<close> the bytes.
\<close>

record request =
  req_method :: string
  req_url :: string
  req_header :: "(string \<times> string) list"

record http_response =
  StatusCode :: int
  Body :: "string + string"

text \<open>
  The world outside the process, as the two clients see it: \<open>new_request\<close> is the error of
  \<^verbatim>\<open>http.NewRequest\<close> for a URL it cannot parse; \<open>client_do\<close> is \<^verbatim>\<open>client.Do\<close>, \<open>Inl\<close>
  for a transport failure, a timeout or a cancelled context.
\<close>

record net =
  new_request :: "string \<Rightarrow> string option"
  client_do :: "request \<Rightarrow> string + http_response"

datatype nhtsa_error =
    NVinVazio
  | NCreatingRequest string
  | NHttpRequest string
  | NReadBody string
  | NStatus int string
  | NUnmarshal string

text \<open>
  \<^verbatim>\<open>fetchNHTSA\<close> (part_000 lines 49-81, the same text in part_001 lines 47-79). The
  second component lists the requests handed to \<^verbatim>\<open>client.Do\<close>. \<open>unmarshal\<close> is
  \<^verbatim>\<open>json.Unmarshal\<close> into an \<^verbatim>\<open>NHTSAResponse\<close>.
\<close>

definition fetchNHTSA ::
  "net \<Rightarrow> (string \<Rightarrow> string + 'n NHTSAResponse) \<Rightarrow> string
     \<Rightarrow> (nhtsa_error + 'n NHTSAResponse) \<times> request list" where
  "fetchNHTSA nw unmarshal vin =
     (if vin = [] then (Inl NVinVazio, [])
      else
        let url = ''https://vpic.nhtsa.dot.gov/api/vehicles/DecodeVinValues/'' @ vin
                    @ ''?format=json''
        in case new_request nw url of
             Some e \<Rightarrow> (Inl (NCreatingRequest e), [])
           | None \<Rightarrow>
               let req = \<lparr>req_method = ''GET'', req_url = url,
                          req_header = [(''Accept'', ''application/json'')]\<rparr>
               in case client_do nw req of
                    Inl e \<Rightarrow> (Inl (NHttpRequest e), [req])
                  | Inr resp \<Rightarrow>
                      (case Body resp of
                         Inl e \<Rightarrow> (Inl (NReadBody e), [req])
                       | Inr body \<Rightarrow>
                           if StatusCode resp \<noteq> 200 then (Inl (NStatus (StatusCode resp) body), [req])
                           else (case unmarshal body of
                                   Inl e \<Rightarrow> (Inl (NUnmarshal e), [req])
                                 | Inr nr \<Rightarrow> (Inr nr, [req]))))"

datatype vin_error =
    VinVazio
  | CriandoRequest string
  | ExecutandoRequest string
  | StatusHTTPInesperado int
  | LendoCorpo string
  | DecodificandoJSON string
  | StatusDaAPI string

text \<open>
  \<^verbatim>\<open>fetchVIN\<close> (main.go lines 76-130). The context argument only cancels the request, which
  \<open>client_do\<close> reports as a failure, so it is not a parameter of the model. The HTTP
  status is tested before the body is read, the business status last. The header names
  are the ones the source passes to \<^verbatim>\<open>Header.Add\<close>.
\<close>

definition fetchVIN ::
  "net \<Rightarrow> (string \<Rightarrow> string + APIResponse) \<Rightarrow> AppConfig \<Rightarrow> string
     \<Rightarrow> (vin_error + APIResponse) \<times> request list" where
  "fetchVIN nw unmarshal cfg vin =
     (if length vin = 0 then (Inl VinVazio, [])
      else
        let url = BaseURL cfg @ ''/UsedPowersportsService.svc/VINV2/'' @ vin
        in case new_request nw url of
             Some e \<Rightarrow> (Inl (CriandoRequest e), [])
           | None \<Rightarrow>
               let req = \<lparr>req_method = ''GET'', req_url = url,
                          req_header = [(''UserName'', JDPUser cfg), (''password'', JDPPass cfg)]\<rparr>
               in case client_do nw req of
                    Inl e \<Rightarrow> (Inl (ExecutandoRequest e), [req])
                  | Inr resp \<Rightarrow>
                      if StatusCode resp \<noteq> 200
                      then (Inl (StatusHTTPInesperado (StatusCode resp)), [req])
                      else (case Body resp of
                              Inl e \<Rightarrow> (Inl (LendoCorpo e), [req])
                            | Inr body \<Rightarrow>
                                (case unmarshal body of
                                   Inl e \<Rightarrow> (Inl (DecodificandoJSON e), [req])
                                 | Inr apiResp \<Rightarrow>
                                     let status = Status apiResp
                                     in if status \<noteq> ''ExactMatch''
                                        then (Inl (StatusDaAPI status), [req])
                                        else (Inr apiResp, [req]))))"

section \<open>The vehicle record and the table\<close>

text \<open>
  The map literal \<^verbatim>\<open>out\<close> of \<^verbatim>\<open>nhtsaHandler\<close> and the map \<^verbatim>\<open>getVehicleByVIN\<close> returns have
  the same eleven fixed keys; the record has one field per key (\<open>v_make\<close> for the key
  \<^verbatim>\<open>"make"\<close>, and so on). A field that holds \<open>VNil\<close> is an absent canonical field.
\<close>

record 'n vehicle =
  v_vin :: string
  v_make :: "'n goval"
  v_model :: "'n goval"
  v_model_year :: "'n goval"
  v_manufacturer :: "'n goval"
  v_plant_country :: "'n goval"
  v_plant_state :: "'n goval"
  v_body_class :: "'n goval"
  v_engine_cylinders :: "'n goval"
  v_fuel_type :: "'n goval"
  v_raw :: "'n gomap"

text \<open>
  Modelled from the spec: the table \<^verbatim>\<open>vehicles\<close>, whose \<^verbatim>\<open>CREATE TABLE\<close> is not in the
  repository. The spec gives it one row per VIN (the primary key), a column for each
  canonical field, each an optional string, the serialized raw payload and a last-updated
  timestamp. A column holds the value that \<^verbatim>\<open>db.Exec\<close> bound to its placeholder, \<open>VNil\<close>
  being SQL \<^verbatim>\<open>NULL\<close>; \<open>c_raw\<close> holds the bytes of the payload, \<open>None\<close> being \<^verbatim>\<open>NULL\<close>.
\<close>

record 'n cols =
  c_make :: "'n goval"
  c_model :: "'n goval"
  c_model_year :: "'n goval"
  c_manufacturer :: "'n goval"
  c_plant_country :: "'n goval"
  c_plant_state :: "'n goval"
  c_body_class :: "'n goval"
  c_engine_cylinders :: "'n goval"
  c_fuel_type :: "'n goval"
  c_raw :: "string option"

text \<open>A row: its columns and \<^verbatim>\<open>last_updated\<close>. The table is keyed by the column \<^verbatim>\<open>vin\<close>.\<close>

type_synonym 'n table = "string \<Rightarrow> ('n cols \<times> nat option) option"

datatype db_error =
    DriverError string
  | ErrNoRows
  | ScanNull nat

text \<open>What the handler does to the outside, in order.\<close>

datatype 'n event =
    Query string
  | Exec string "'n cols"
  | Http request
  | Log db_error

record 'n world =
  tbl :: "'n table"
  trace :: "'n event list"

text \<open>
  What the code takes from its libraries and its surroundings:
  \<^item> \<open>query_fault\<close>, \<open>exec_fault\<close>: the error, if any, with which the driver or the server
    refuses the \<^verbatim>\<open>SELECT\<close> for a VIN, and the \<^verbatim>\<open>INSERT\<close> of a VIN with its bound values
    (a lost connection, a value the column's type does not take);
  \<^item> \<open>insert_default\<close>: the value \<^verbatim>\<open>last_updated\<close> takes in a fresh row, which the statement
    does not name, as a function of the time of the statement;
  \<^item> \<open>as_text\<close>: how a stored value that is neither \<^verbatim>\<open>NULL\<close> nor a string reads when it is
    scanned into a Go string;
  \<^item> \<open>network\<close>: the HTTP client;
  \<^item> \<open>unmarshal_nhtsa\<close>, \<open>marshal_map\<close>, \<open>unmarshal_map\<close>: \<^verbatim>\<open>json.Unmarshal\<close> into an
    \<^verbatim>\<open>NHTSAResponse\<close>, \<^verbatim>\<open>json.Marshal\<close> of a map, \<^verbatim>\<open>json.Unmarshal\<close> into a map.
\<close>

record 'n env =
  query_fault :: "string \<Rightarrow> string option"
  exec_fault :: "string \<Rightarrow> 'n cols \<Rightarrow> string option"
  insert_default :: "nat \<Rightarrow> nat option"
  as_text :: "'n goval \<Rightarrow> string"
  network :: net
  unmarshal_nhtsa :: "string \<Rightarrow> string + 'n NHTSAResponse"
  marshal_map :: "'n gomap \<Rightarrow> string + string"
  unmarshal_map :: "string \<Rightarrow> string + 'n gomap"

text \<open>A value that is a Go string.\<close>

definition is_string :: "'n goval \<Rightarrow> bool" where
  "is_string v = (case v of VString s \<Rightarrow> True | _ \<Rightarrow> False)"

section \<open>The store adapter\<close>

text \<open>
  The statement of \<^verbatim>\<open>upsertVehicle\<close> run at time \<open>now\<close>: insert the row, or on a conflict
  on \<^verbatim>\<open>vin\<close> overwrite the ten columns and set \<^verbatim>\<open>last_updated = now()\<close>. A statement that
  fails changes nothing.
\<close>

definition db_Exec ::
  "'n env \<Rightarrow> nat \<Rightarrow> 'n world \<Rightarrow> string \<Rightarrow> 'n cols \<Rightarrow> db_error option \<times> 'n world" where
  "db_Exec env now w k args =
     (let w1 = w\<lparr>trace := trace w @ [Exec k args]\<rparr>
      in case exec_fault env k args of
           Some e \<Rightarrow> (Some (DriverError e), w1)
         | None \<Rightarrow>
             (None,
              w1\<lparr>tbl := (tbl w)(k \<mapsto>
                     (args, case tbl w k of
                              None \<Rightarrow> insert_default env now
                            | Some old \<Rightarrow> Some now))\<rparr>))"

text \<open>
  The ten values \<^verbatim>\<open>upsertVehicle\<close> binds after \<^verbatim>\<open>$1\<close> (part_000 lines 86 and 98-99). The
  error of \<^verbatim>\<open>json.Marshal\<close> is dropped, and the nil byte slice it leaves is bound as
  \<^verbatim>\<open>NULL\<close>.
\<close>

definition exec_args :: "'n env \<Rightarrow> 'n vehicle \<Rightarrow> 'n cols" where
  "exec_args env out =
     (let rawJSON = (case marshal_map env (v_raw out) of Inl e \<Rightarrow> None | Inr b \<Rightarrow> Some b)
      in \<lparr>c_make = v_make out, c_model = v_model out, c_model_year = v_model_year out,
          c_manufacturer = v_manufacturer out, c_plant_country = v_plant_country out,
          c_plant_state = v_plant_state out, c_body_class = v_body_class out,
          c_engine_cylinders = v_engine_cylinders out, c_fuel_type = v_fuel_type out,
          c_raw = rawJSON\<rparr>)"

text \<open>\<^verbatim>\<open>upsertVehicle\<close> (part_000 lines 85-102), run at time \<open>now\<close>.\<close>

definition upsertVehicle ::
  "'n env \<Rightarrow> nat \<Rightarrow> 'n world \<Rightarrow> 'n vehicle \<Rightarrow> db_error option \<times> 'n world" where
  "upsertVehicle env now w out = db_Exec env now w (v_vin out) (exec_args env out)"

text \<open>
  \<^verbatim>\<open>row.Scan\<close> into a destination of type \<^verbatim>\<open>string\<close>, for the column at index \<open>i\<close> of
  the \<^verbatim>\<open>SELECT\<close> (index 0 is \<^verbatim>\<open>vin\<close>, the primary key, which is never \<^verbatim>\<open>NULL\<close>):
  \<^verbatim>\<open>database/sql\<close> refuses to convert \<^verbatim>\<open>NULL\<close> to a string ("converting NULL to string
  is unsupported"); every other value converts.
\<close>

definition scan_string :: "'n env \<Rightarrow> nat \<Rightarrow> 'n goval \<Rightarrow> db_error + string" where
  "scan_string env i v =
     (case v of
        VNil \<Rightarrow> Inl (ScanNull i)
      | VString s \<Rightarrow> Inr s
      | _ \<Rightarrow> Inr (as_text env v))"

definition and_then :: "'e + 'a \<Rightarrow> ('a \<Rightarrow> 'e + 'b) \<Rightarrow> 'e + 'b" where
  "and_then r f = (case r of Inl e \<Rightarrow> Inl e | Inr x \<Rightarrow> f x)"

text \<open>
  \<^verbatim>\<open>getVehicleByVIN\<close> (part_000 lines 104-134). \<^verbatim>\<open>Scan\<close> reports the error of the query,
  then \<^verbatim>\<open>sql.ErrNoRows\<close>, then the first column, in order, that does not convert. The
  row selected is the one whose \<^verbatim>\<open>vin\<close> is the argument, so \<^verbatim>\<open>vinVal\<close> is the argument. The
  error of \<^verbatim>\<open>json.Unmarshal\<close> is dropped and leaves \<^verbatim>\<open>rawJSON\<close> the nil map.
\<close>

definition getVehicleByVIN ::
  "'n env \<Rightarrow> 'n world \<Rightarrow> string \<Rightarrow> (db_error + 'n vehicle) \<times> 'n world" where
  "getVehicleByVIN env w vin =
     (let w1 = w\<lparr>trace := trace w @ [Query vin]\<rparr>
      in case query_fault env vin of
           Some e \<Rightarrow> (Inl (DriverError e), w1)
         | None \<Rightarrow>
             (case tbl w vin of
                None \<Rightarrow> (Inl ErrNoRows, w1)
              | Some (c, ts) \<Rightarrow>
                  (and_then (scan_string env 1 (c_make c)) (\<lambda>make.
                   and_then (scan_string env 2 (c_model c)) (\<lambda>model.
                   and_then (scan_string env 3 (c_model_year c)) (\<lambda>modelYear.
                   and_then (scan_string env 4 (c_manufacturer c)) (\<lambda>manufacturer.
                   and_then (scan_string env 5 (c_plant_country c)) (\<lambda>plantCountry.
                   and_then (scan_string env 6 (c_plant_state c)) (\<lambda>plantState.
                   and_then (scan_string env 7 (c_body_class c)) (\<lambda>bodyClass.
                   and_then (scan_string env 8 (c_engine_cylinders c)) (\<lambda>engineCylinders.
                   and_then (scan_string env 9 (c_fuel_type c)) (\<lambda>fuelType.
                     let rawJSON =
                           (case c_raw c of
                              None \<Rightarrow> None
                            | Some raw \<Rightarrow>
                                (case unmarshal_map env raw of Inl e \<Rightarrow> None | Inr m \<Rightarrow> m))
                     in Inr \<lparr>v_vin = vin, v_make = VString make, v_model = VString model,
                             v_model_year = VString modelYear,
                             v_manufacturer = VString manufacturer,
                             v_plant_country = VString plantCountry,
                             v_plant_state = VString plantState,
                             v_body_class = VString bodyClass,
                             v_engine_cylinders = VString engineCylinders,
                             v_fuel_type = VString fuelType,
                             v_raw = rawJSON\<rparr>))))))))),
                   w1)))"

section \<open>The handlers\<close>

text \<open>
  What \<^verbatim>\<open>jsonWrite\<close> sends: the status and the value it serializes. The three shapes are
  the error map \<^verbatim>\<open>{"error": msg}\<close>, the failure map \<^verbatim>\<open>{"vin": vin, "error": err}\<close> and a
  vehicle map.
\<close>

datatype 'n body =
    ErrorBody string
  | FailBody string nhtsa_error
  | VehicleBody "'n vehicle"

text \<open>
  Lines 161-166 of \<^verbatim>\<open>nhtsaHandler\<close> in part_000 (96-101 in part_001): the first entry of
  \<^verbatim>\<open>Results\<close>, or the empty map.
\<close>

definition first_flat :: "'n NHTSAResponse \<Rightarrow> 'n gomap" where
  "first_flat nresp =
     (if length (Results nresp) > 0 then Results nresp ! 0 else Some Map.empty)"

text \<open>Lines 168-180 of \<^verbatim>\<open>nhtsaHandler\<close> in part_000 (103-115 in part_001): the map \<^verbatim>\<open>out\<close>.\<close>

definition build_out :: "string \<Rightarrow> 'n gomap \<Rightarrow> 'n vehicle" where
  "build_out vin flat =
     \<lparr>v_vin = vin,
      v_make = index flat ''Make'',
      v_model = index flat ''Model'',
      v_model_year = index flat ''ModelYear'',
      v_manufacturer = index flat ''Manufacturer'',
      v_plant_country = index flat ''PlantCountry'',
      v_plant_state = index flat ''PlantState'',
      v_body_class = index flat ''BodyClass'',
      v_engine_cylinders = index flat ''EngineCylinders'',
      v_fuel_type = index flat ''FuelTypePrimary'',
      v_raw = flat\<rparr>"

definition prefix_nhtsa :: string where
  "prefix_nhtsa = ''/nhtsa/''"

text \<open>
  \<^verbatim>\<open>nhtsaHandler\<close> of part_000 (lines 139-189), for a request with path \<open>path\<close> served at
  time \<open>now\<close>.
\<close>

definition nhtsaHandler ::
  "'n env \<Rightarrow> nat \<Rightarrow> string \<Rightarrow> 'n world \<Rightarrow> (int \<times> 'n body) \<times> 'n world" where
  "nhtsaHandler env now path w =
     (if length path \<le> length prefix_nhtsa
      then ((400, ErrorBody ''use /nhtsa/{vin}''), w)
      else
        let vin = drop (length prefix_nhtsa) path
        in case getVehicleByVIN env w vin of
             (Inr v, w1) \<Rightarrow> ((200, VehicleBody v), w1)
           | (Inl e, w1) \<Rightarrow>
               (case fetchNHTSA (network env) (unmarshal_nhtsa env) vin of
                  (Inl err, sent) \<Rightarrow>
                    ((502, FailBody vin err), w1\<lparr>trace := trace w1 @ map Http sent\<rparr>)
                | (Inr nresp, sent) \<Rightarrow>
                    let w2 = w1\<lparr>trace := trace w1 @ map Http sent\<rparr>;
                        flat = first_flat nresp;
                        out = build_out vin flat
                    in case upsertVehicle env now w2 out of
                         (Some err, w3) \<Rightarrow>
                           ((200, VehicleBody out), w3\<lparr>trace := trace w3 @ [Log err]\<rparr>)
                       | (None, w3) \<Rightarrow> ((200, VehicleBody out), w3)))"

text \<open>
  \<^verbatim>\<open>nhtsaHandler\<close> of part_001 (lines 82-118), the variant without a store. It returns the
  response and the requests sent.
\<close>

definition nhtsaHandler_v1 ::
  "net \<Rightarrow> (string \<Rightarrow> string + 'n NHTSAResponse) \<Rightarrow> string \<Rightarrow> (int \<times> 'n body) \<times> request list" where
  "nhtsaHandler_v1 nw unmarshal path =
     (if length path \<le> length prefix_nhtsa
      then ((400, ErrorBody ''use /nhtsa/{vin}''), [])
      else
        let vin = drop (length prefix_nhtsa) path
        in case fetchNHTSA nw unmarshal vin of
             (Inl err, sent) \<Rightarrow> ((502, FailBody vin err), sent)
           | (Inr nresp, sent) \<Rightarrow>
               ((200, VehicleBody (build_out vin (first_flat nresp))), sent))"

text \<open>
  \<^verbatim>\<open>vinHandler\<close> of main.go (lines 148-172): the status, and either the error map
  \<^verbatim>\<open>{"error": msg}\<close> (\<open>Inl (Inl msg)\<close>), the failure map \<^verbatim>\<open>{"vin": vin, "error": err}\<close>
  (\<open>Inl (Inr (vin, err))\<close>) or the decoded response (\<open>Inr\<close>).
\<close>

definition vinHandler ::
  "net \<Rightarrow> (string \<Rightarrow> string + APIResponse) \<Rightarrow> AppConfig \<Rightarrow> string
     \<Rightarrow> (int \<times> ((string + string \<times> vin_error) + APIResponse)) \<times> request list" where
  "vinHandler nw unmarshal cfg path =
     (if length path \<le> length ''/vin/''
      then ((400, Inl (Inl ''vin ausente; use /vin/{vin}'')), [])
      else
        let vin = drop (length ''/vin/'') path
        in case fetchVIN nw unmarshal cfg vin of
             (Inl err, sent) \<Rightarrow> ((502, Inl (Inr (vin, err))), sent)
           | (Inr resp, sent) \<Rightarrow> ((200, Inr resp), sent))"

section \<open>Example inputs\<close>

text \<open>
  A network that accepts every URL and gives every request the same answer, and a store
  and codec around it: no fault on reads, the given fault on writes, \<^verbatim>\<open>last_updated\<close>
  defaulting to the time of the insert, a decoder body that always parses to the given
  \<^verbatim>\<open>Results\<close>, and a codec that is right on the first of them.
\<close>

definition stub_net :: "string + http_response \<Rightarrow> net" where
  "stub_net answer = \<lparr>new_request = (\<lambda>url. None), client_do = (\<lambda>req. answer)\<rparr>"

definition ok_answer :: "string \<Rightarrow> string + http_response" where
  "ok_answer body = Inr \<lparr>StatusCode = 200, Body = Inr body\<rparr>"

definition stub_env :: "string + http_response \<Rightarrow> int gomap list \<Rightarrow> string option \<Rightarrow> int env" where
  "stub_env answer results fault =
     \<lparr>query_fault = (\<lambda>vin. None),
      exec_fault = (\<lambda>vin args. fault),
      insert_default = (\<lambda>now. Some now),
      as_text = (\<lambda>v. ''2020''),
      network = stub_net answer,
      unmarshal_nhtsa = (\<lambda>body. Inr \<lparr>Count = 1, Message = ''Results returned successfully'',
                                      SearchCriteria = [], Results = results\<rparr>),
      marshal_map = (\<lambda>m. Inr ''payload''),
      unmarshal_map = (\<lambda>b. Inr (case results of [] \<Rightarrow> Some Map.empty | r # rs \<Rightarrow> r))\<rparr>"

definition empty_world :: "int world" where
  "empty_world = \<lparr>tbl = Map.empty, trace = []\<rparr>"

definition nhtsa_request :: "string \<Rightarrow> request" where
  "nhtsa_request vin =
     \<lparr>req_method = ''GET'',
      req_url = ''https://vpic.nhtsa.dot.gov/api/vehicles/DecodeVinValues/'' @ vin @ ''?format=json'',
      req_header = [(''Accept'', ''application/json'')]\<rparr>"

text \<open>The response of the spec's scenario: \<^verbatim>\<open>{Make: "Honda", Model: "Civic", ModelYear: 2020}\<close>.\<close>

definition flat_civic :: "int gomap" where
  "flat_civic =
     Some [''Make'' \<mapsto> VString ''Honda'', ''Model'' \<mapsto> VString ''Civic'',
           ''ModelYear'' \<mapsto> VFloat 2020]"

text \<open>A response with a string for each of the nine source keys, as the NHTSA service sends it.\<close>

definition flat_strings :: "int gomap" where
  "flat_strings =
     Some [''Make'' \<mapsto> VString ''Honda'', ''Model'' \<mapsto> VString ''Civic'',
           ''ModelYear'' \<mapsto> VString ''2020'', ''Manufacturer'' \<mapsto> VString ''Honda of America'',
           ''PlantCountry'' \<mapsto> VString ''USA'', ''PlantState'' \<mapsto> VString ''Ohio'',
           ''BodyClass'' \<mapsto> VString ''Coupe'', ''EngineCylinders'' \<mapsto> VString ''4'',
           ''FuelTypePrimary'' \<mapsto> VString ''Gasoline'']"

text \<open>
  The answer \<^verbatim>\<open>{Make: "Honda", Model: "Civic", ModelYear: "2020"}\<close>: three source keys with
  strings, the six others missing.
\<close>

definition flat_partial :: "int gomap" where
  "flat_partial =
     Some [''Make'' \<mapsto> VString ''Honda'', ''Model'' \<mapsto> VString ''Civic'',
           ''ModelYear'' \<mapsto> VString ''2020'']"

text \<open>
  A driver in front of a table whose nine canonical columns have a string type, as pgx
  encodes parameters: \<^verbatim>\<open>nil\<close> and a Go string are taken, every other Go value is refused
  and the statement is not run.
\<close>

definition takes_text :: "'n goval \<Rightarrow> bool" where
  "takes_text v = (case v of VNil \<Rightarrow> True | VString s \<Rightarrow> True | _ \<Rightarrow> False)"

definition text_columns_only :: "string \<Rightarrow> 'n cols \<Rightarrow> string option" where
  "text_columns_only vin args =
     (if takes_text (c_make args) \<and> takes_text (c_model args) \<and> takes_text (c_model_year args)
         \<and> takes_text (c_manufacturer args) \<and> takes_text (c_plant_country args)
         \<and> takes_text (c_plant_state args) \<and> takes_text (c_body_class args)
         \<and> takes_text (c_engine_cylinders args) \<and> takes_text (c_fuel_type args)
      then None
      else Some ''unable to encode into text format'')"

definition strict_env :: "string + http_response \<Rightarrow> int gomap list \<Rightarrow> int env" where
  "strict_env answer results = (stub_env answer results None)\<lparr>exec_fault := text_columns_only\<rparr>"

text \<open>A JD Power body that parses to a response with the given business status.\<close>

definition stub_api :: "string \<Rightarrow> string \<Rightarrow> string + APIResponse" where
  "stub_api status body = Inr \<lparr>Status = status, Models = [], VintageModels = []\<rparr>"

definition stub_cfg :: AppConfig where
  "stub_cfg = \<lparr>JDPUser = ''user'', JDPPass = ''pass'',
               BaseURL = ''https://www.jdpowerwebservices.com''\<rparr>"

section \<open>Facts about the store adapter and the handler\<close>

lemmas stubs = stub_env_def stub_net_def ok_answer_def empty_world_def nhtsa_request_def
  stub_api_def stub_cfg_def strict_env_def text_columns_only_def takes_text_def

lemmas handler_code = nhtsaHandler_def getVehicleByVIN_def fetchNHTSA_def upsertVehicle_def
  db_Exec_def exec_args_def build_out_def first_flat_def index_def prefix_nhtsa_def
  and_then_def scan_string_def

lemma upsertVehicle_result:
  "upsertVehicle env now w out =
     (case exec_fault env (v_vin out) (exec_args env out) of
        Some m \<Rightarrow>
          (Some (DriverError m),
           w\<lparr>trace := trace w @ [Exec (v_vin out) (exec_args env out)]\<rparr>)
      | None \<Rightarrow>
          (None,
           \<lparr>tbl = (tbl w)(v_vin out \<mapsto>
                    (exec_args env out,
                     case tbl w (v_vin out) of
                       None \<Rightarrow> insert_default env now
                     | Some old \<Rightarrow> Some now)),
            trace = trace w @ [Exec (v_vin out) (exec_args env out)]\<rparr>))"
  by (simp add: upsertVehicle_def db_Exec_def Let_def split: option.split)

lemma getVehicleByVIN_world:
  "snd (getVehicleByVIN env w vin) = w\<lparr>trace := trace w @ [Query vin]\<rparr>"
  by (simp add: getVehicleByVIN_def Let_def split: option.split prod.split)

lemma getVehicleByVIN_absent:
  "tbl w vin = None \<Longrightarrow>
     fst (getVehicleByVIN env w vin) =
       (case query_fault env vin of Some e \<Rightarrow> Inl (DriverError e) | None \<Rightarrow> Inl ErrNoRows)"
  by (simp add: getVehicleByVIN_def Let_def split: option.split)

text \<open>What a read returns depends on the columns of the row only, not on \<^verbatim>\<open>last_updated\<close>.\<close>

lemma getVehicleByVIN_columns:
  assumes "map_option fst (tbl w k) = map_option fst (tbl w' k)"
  shows "fst (getVehicleByVIN env w k) = fst (getVehicleByVIN env w' k)"
  using assms
  by (cases "tbl w k"; cases "tbl w' k")
     (auto simp: getVehicleByVIN_def Let_def split: option.split)

lemma scan_string_string:
  "is_string v \<Longrightarrow> scan_string env i v = Inr (case v of VString s \<Rightarrow> s)"
  by (cases v) (simp_all add: is_string_def scan_string_def)

lemma VString_of_string: "is_string v \<Longrightarrow> VString (case v of VString s \<Rightarrow> s) = v"
  by (cases v) (simp_all add: is_string_def)

text \<open>The handler on a path that has a VIN segment: the body of the function after its guard.\<close>

lemma nhtsaHandler_long:
  "vin \<noteq> [] \<Longrightarrow>
     nhtsaHandler env now (prefix_nhtsa @ vin) w =
       (case getVehicleByVIN env w vin of
          (Inr v, w1) \<Rightarrow> ((200, VehicleBody v), w1)
        | (Inl e, w1) \<Rightarrow>
            (case fetchNHTSA (network env) (unmarshal_nhtsa env) vin of
               (Inl err, sent) \<Rightarrow>
                 ((502, FailBody vin err), w1\<lparr>trace := trace w1 @ map Http sent\<rparr>)
             | (Inr nresp, sent) \<Rightarrow>
                 (case upsertVehicle env now (w1\<lparr>trace := trace w1 @ map Http sent\<rparr>)
                         (build_out vin (first_flat nresp)) of
                    (Some err, w3) \<Rightarrow>
                      ((200, VehicleBody (build_out vin (first_flat nresp))),
                       w3\<lparr>trace := trace w3 @ [Log err]\<rparr>)
                  | (None, w3) \<Rightarrow> ((200, VehicleBody (build_out vin (first_flat nresp))), w3))))"
  by (simp add: nhtsaHandler_def Let_def split: prod.split sum.split option.split)

text \<open>The fast path: a read that returns a record ends the request.\<close>

lemma nhtsaHandler_hit:
  assumes "vin \<noteq> []" and "fst (getVehicleByVIN env w vin) = Inr v"
  shows "nhtsaHandler env now (prefix_nhtsa @ vin) w =
           ((200, VehicleBody v), w\<lparr>trace := trace w @ [Query vin]\<rparr>)"
proof -
  obtain r w1 where g: "getVehicleByVIN env w vin = (r, w1)"
    by (cases "getVehicleByVIN env w vin")
  with assms(2) have r: "r = Inr v" by simp
  from g getVehicleByVIN_world [of env w vin]
  have w1: "w1 = w\<lparr>trace := trace w @ [Query vin]\<rparr>" by simp
  show ?thesis
    by (simp add: nhtsaHandler_long [OF assms(1)] g r w1)
qed

lemma nhtsaHandler_miss_fail:
  assumes "vin \<noteq> []" and "fst (getVehicleByVIN env w vin) = Inl e"
    and "fetchNHTSA (network env) (unmarshal_nhtsa env) vin = (Inl err, sent)"
  shows "nhtsaHandler env now (prefix_nhtsa @ vin) w =
           ((502, FailBody vin err), w\<lparr>trace := trace w @ [Query vin] @ map Http sent\<rparr>)"
proof -
  obtain r w1 where g: "getVehicleByVIN env w vin = (r, w1)"
    by (cases "getVehicleByVIN env w vin")
  with assms(2) have r: "r = Inl e" by simp
  from g getVehicleByVIN_world [of env w vin]
  have w1: "w1 = w\<lparr>trace := trace w @ [Query vin]\<rparr>" by simp
  show ?thesis
    by (simp add: nhtsaHandler_long [OF assms(1)] g r w1 assms(3))
qed

lemma nhtsaHandler_miss_ok:
  assumes "vin \<noteq> []" and "fst (getVehicleByVIN env w vin) = Inl e"
    and "fetchNHTSA (network env) (unmarshal_nhtsa env) vin = (Inr nresp, sent)"
  shows "nhtsaHandler env now (prefix_nhtsa @ vin) w =
           (let out = build_out vin (first_flat nresp);
                args = exec_args env out;
                tr = trace w @ [Query vin] @ map Http sent @ [Exec vin args]
            in ((200, VehicleBody out),
                case exec_fault env vin args of
                  Some m \<Rightarrow> w\<lparr>trace := tr @ [Log (DriverError m)]\<rparr>
                | None \<Rightarrow>
                    \<lparr>tbl = (tbl w)(vin \<mapsto>
                             (args, case tbl w vin of
                                      None \<Rightarrow> insert_default env now
                                    | Some old \<Rightarrow> Some now)),
                     trace = tr\<rparr>))"
proof -
  obtain r w1 where g: "getVehicleByVIN env w vin = (r, w1)"
    by (cases "getVehicleByVIN env w vin")
  with assms(2) have r: "r = Inl e" by simp
  from g getVehicleByVIN_world [of env w vin]
  have w1: "w1 = w\<lparr>trace := trace w @ [Query vin]\<rparr>" by simp
  have v: "v_vin (build_out vin (first_flat nresp)) = vin" by (simp add: build_out_def)
  show ?thesis
    by (simp add: nhtsaHandler_long [OF assms(1)] Let_def g r w1 assms(3) upsertVehicle_def
          db_Exec_def v split: option.split)
qed

text \<open>The ways the decoder call fails, and the one way it succeeds.\<close>

lemma fetchNHTSA_cases:
  assumes "vin \<noteq> []"
  shows "fetchNHTSA nw unmarshal vin =
           (case new_request nw (req_url (nhtsa_request vin)) of
              Some e \<Rightarrow> (Inl (NCreatingRequest e), [])
            | None \<Rightarrow>
                (case client_do nw (nhtsa_request vin) of
                   Inl e \<Rightarrow> (Inl (NHttpRequest e), [nhtsa_request vin])
                 | Inr resp \<Rightarrow>
                     (case Body resp of
                        Inl e \<Rightarrow> (Inl (NReadBody e), [nhtsa_request vin])
                      | Inr body \<Rightarrow>
                          if StatusCode resp \<noteq> 200
                          then (Inl (NStatus (StatusCode resp) body), [nhtsa_request vin])
                          else (case unmarshal body of
                                  Inl e \<Rightarrow> (Inl (NUnmarshal e), [nhtsa_request vin])
                                | Inr nr \<Rightarrow> (Inr nr, [nhtsa_request vin])))))"
  using assms
  by (simp add: fetchNHTSA_def nhtsa_request_def Let_def split: option.split sum.split)

text \<open>The fault of the \<^verbatim>\<open>INSERT\<close> plays no part in a read or in the bound values.\<close>

lemma scan_string_exec_fault:
  "scan_string (env\<lparr>exec_fault := f\<rparr>) i v = scan_string env i v"
  by (simp add: scan_string_def split: goval.split)

lemma getVehicleByVIN_exec_fault:
  "getVehicleByVIN (env\<lparr>exec_fault := f\<rparr>) w vin = getVehicleByVIN env w vin"
  by (simp add: getVehicleByVIN_def scan_string_exec_fault Let_def split: option.split prod.split)

lemma exec_args_exec_fault: "exec_args (env\<lparr>exec_fault := f\<rparr>) out = exec_args env out"
  by (simp add: exec_args_def)

text \<open>
  When a read returns a record: the row is there, the query does not fail and none of the
  nine canonical columns is \<^verbatim>\<open>NULL\<close>. One \<^verbatim>\<open>NULL\<close> among them makes the read fail, and
  the handler then goes to the decoder.
\<close>

lemma scan_string_non_null:
  "v \<noteq> VNil \<Longrightarrow> \<exists>s. scan_string env i v = Inr s"
  by (cases v) (simp_all add: scan_string_def)

lemma getVehicleByVIN_reads_non_null_row:
  assumes "query_fault env vin = None" and "tbl w vin = Some (c, ts)"
    and "c_make c \<noteq> VNil" "c_model c \<noteq> VNil" "c_model_year c \<noteq> VNil"
    "c_manufacturer c \<noteq> VNil" "c_plant_country c \<noteq> VNil" "c_plant_state c \<noteq> VNil"
    "c_body_class c \<noteq> VNil" "c_engine_cylinders c \<noteq> VNil" "c_fuel_type c \<noteq> VNil"
  shows "\<exists>v. fst (getVehicleByVIN env w vin) = Inr v"
proof -
  from assms(3-11) obtain s1 s2 s3 s4 s5 s6 s7 s8 s9 where
    "scan_string env 1 (c_make c) = Inr s1" "scan_string env 2 (c_model c) = Inr s2"
    "scan_string env 3 (c_model_year c) = Inr s3" "scan_string env 4 (c_manufacturer c) = Inr s4"
    "scan_string env 5 (c_plant_country c) = Inr s5" "scan_string env 6 (c_plant_state c) = Inr s6"
    "scan_string env 7 (c_body_class c) = Inr s7" "scan_string env 8 (c_engine_cylinders c) = Inr s8"
    "scan_string env 9 (c_fuel_type c) = Inr s9"
    using scan_string_non_null by metis
  then show ?thesis
    by (simp add: getVehicleByVIN_def Let_def assms(1,2) and_then_def)
qed

lemma and_then_Inl: "and_then (Inl e) f = Inl e"
  by (simp add: and_then_def)

lemma and_then_error: "(\<And>x. \<exists>e. f x = Inl e) \<Longrightarrow> \<exists>e. and_then r f = Inl e"
  by (cases r) (simp_all add: and_then_def)

lemma scan_string_null: "scan_string env i VNil = Inl (ScanNull i)"
  by (simp add: scan_string_def)

lemma getVehicleByVIN_fails_on_null:
  assumes "tbl w vin = Some (c, ts)"
    and "c_make c = VNil \<or> c_model c = VNil \<or> c_model_year c = VNil
         \<or> c_manufacturer c = VNil \<or> c_plant_country c = VNil \<or> c_plant_state c = VNil
         \<or> c_body_class c = VNil \<or> c_engine_cylinders c = VNil \<or> c_fuel_type c = VNil"
  shows "\<exists>e. fst (getVehicleByVIN env w vin) = Inl e"
proof (cases "query_fault env vin")
  case (Some m)
  then show ?thesis by (simp add: getVehicleByVIN_def Let_def)
next
  case None
  from assms(2) show ?thesis
    unfolding getVehicleByVIN_def Let_def
    by (elim disjE)
       (simp_all add: None assms(1) scan_string_null and_then_Inl and_then_error)
qed

lemma fetchNHTSA_sent:
  assumes "vin \<noteq> []" and "new_request nw (req_url (nhtsa_request vin)) = None"
  shows "snd (fetchNHTSA nw unmarshal vin) = [nhtsa_request vin]"
  by (simp add: fetchNHTSA_cases [OF assms(1)] assms(2) split: sum.split)

lemma nhtsaHandler_null_row:
  assumes "vin \<noteq> []" and "tbl w vin = Some (c, ts)"
    and "c_make c = VNil \<or> c_model c = VNil \<or> c_model_year c = VNil
         \<or> c_manufacturer c = VNil \<or> c_plant_country c = VNil \<or> c_plant_state c = VNil
         \<or> c_body_class c = VNil \<or> c_engine_cylinders c = VNil \<or> c_fuel_type c = VNil"
    and "new_request (network env) (req_url (nhtsa_request vin)) = None"
  shows "Http (nhtsa_request vin) \<in> set (trace (snd (nhtsaHandler env now (prefix_nhtsa @ vin) w)))"
proof -
  from getVehicleByVIN_fails_on_null [OF assms(2,3)]
  obtain e where m: "fst (getVehicleByVIN env w vin) = Inl e" by blast
  obtain r sent where f: "fetchNHTSA (network env) (unmarshal_nhtsa env) vin = (r, sent)"
    by (cases "fetchNHTSA (network env) (unmarshal_nhtsa env) vin")
  with fetchNHTSA_sent [OF assms(1,4), of "unmarshal_nhtsa env"]
  have s: "sent = [nhtsa_request vin]" by simp
  show ?thesis
  proof (cases r)
    case (Inl err)
    with f have "fetchNHTSA (network env) (unmarshal_nhtsa env) vin = (Inl err, sent)" by simp
    from nhtsaHandler_miss_fail [OF assms(1) m this] show ?thesis by (simp add: s)
  next
    case (Inr nresp)
    with f have "fetchNHTSA (network env) (unmarshal_nhtsa env) vin = (Inr nresp, sent)" by simp
    from nhtsaHandler_miss_ok [OF assms(1) m this] show ?thesis
      by (simp add: s Let_def split: option.split)
  qed
qed

text \<open>
  Through the store and back. When the nine source keys hold strings, neither statement
  fails and the JSON codec returns the mapping from the bytes it made of it, the record
  read back is the record that was built. When one of the nine source keys is missing or
  null, the read-back of a VIN that had no row is an error whatever the driver does with
  the \<^verbatim>\<open>INSERT\<close>: refused, there is no row; accepted, the row has a \<^verbatim>\<open>NULL\<close> that \<^verbatim>\<open>Scan\<close>
  does not take.
\<close>

lemma roundtrip_of_strings:
  assumes "is_string (index flat ''Make'')" "is_string (index flat ''Model'')"
    "is_string (index flat ''ModelYear'')" "is_string (index flat ''Manufacturer'')"
    "is_string (index flat ''PlantCountry'')" "is_string (index flat ''PlantState'')"
    "is_string (index flat ''BodyClass'')" "is_string (index flat ''EngineCylinders'')"
    "is_string (index flat ''FuelTypePrimary'')"
    and "exec_fault env vin (exec_args env (build_out vin flat)) = None"
    and "query_fault env vin = None"
    and "marshal_map env flat = Inr b" and "unmarshal_map env b = Inr flat"
  shows "fst (getVehicleByVIN env (snd (upsertVehicle env now w (build_out vin flat))) vin)
           = Inr (build_out vin flat)"
proof -
  have v: "v_vin (build_out vin flat) = vin" by (simp add: build_out_def)
  have t: "tbl (snd (upsertVehicle env now w (build_out vin flat))) vin
             = Some (exec_args env (build_out vin flat),
                     case tbl w vin of None \<Rightarrow> insert_default env now | Some old \<Rightarrow> Some now)"
    by (simp add: upsertVehicle_result v assms(10))
  have a: "exec_args env (build_out vin flat) =
      \<lparr>c_make = index flat ''Make'', c_model = index flat ''Model'',
       c_model_year = index flat ''ModelYear'', c_manufacturer = index flat ''Manufacturer'',
       c_plant_country = index flat ''PlantCountry'', c_plant_state = index flat ''PlantState'',
       c_body_class = index flat ''BodyClass'',
       c_engine_cylinders = index flat ''EngineCylinders'',
       c_fuel_type = index flat ''FuelTypePrimary'', c_raw = Some b\<rparr>"
    by (simp add: exec_args_def build_out_def assms(12))
  have g: "fst (getVehicleByVIN env (snd (upsertVehicle env now w (build_out vin flat))) vin) =
      Inr \<lparr>v_vin = vin, v_make = index flat ''Make'', v_model = index flat ''Model'',
           v_model_year = index flat ''ModelYear'', v_manufacturer = index flat ''Manufacturer'',
           v_plant_country = index flat ''PlantCountry'', v_plant_state = index flat ''PlantState'',
           v_body_class = index flat ''BodyClass'',
           v_engine_cylinders = index flat ''EngineCylinders'',
           v_fuel_type = index flat ''FuelTypePrimary'', v_raw = flat\<rparr>"
    by (simp add: getVehicleByVIN_def Let_def t a assms(11,13) and_then_def
          scan_string_string VString_of_string assms(1-9))
  show ?thesis
    unfolding g by (simp add: build_out_def)
qed

lemma roundtrip_of_strings_example:
  "fst (getVehicleByVIN (stub_env (ok_answer ''{}'') [flat_strings] None)
          (snd (upsertVehicle (stub_env (ok_answer ''{}'') [flat_strings] None) 1 empty_world
                  (build_out ''1HGCM82633A004352'' flat_strings)))
          ''1HGCM82633A004352'')
     = Inr (build_out ''1HGCM82633A004352'' flat_strings)"
  by (rule roundtrip_of_strings [where b = "''payload''"])
     (simp_all add: stubs is_string_def index_def flat_strings_def)

lemma exec_args_columns:
  "c_make (exec_args env (build_out vin flat)) = index flat ''Make''"
  "c_model (exec_args env (build_out vin flat)) = index flat ''Model''"
  "c_model_year (exec_args env (build_out vin flat)) = index flat ''ModelYear''"
  "c_manufacturer (exec_args env (build_out vin flat)) = index flat ''Manufacturer''"
  "c_plant_country (exec_args env (build_out vin flat)) = index flat ''PlantCountry''"
  "c_plant_state (exec_args env (build_out vin flat)) = index flat ''PlantState''"
  "c_body_class (exec_args env (build_out vin flat)) = index flat ''BodyClass''"
  "c_engine_cylinders (exec_args env (build_out vin flat)) = index flat ''EngineCylinders''"
  "c_fuel_type (exec_args env (build_out vin flat)) = index flat ''FuelTypePrimary''"
  by (simp_all add: exec_args_def build_out_def Let_def)

lemma roundtrip_fails_on_missing_key:
  assumes "tbl w vin = None"
    and "index flat ''Make'' = VNil \<or> index flat ''Model'' = VNil
         \<or> index flat ''ModelYear'' = VNil \<or> index flat ''Manufacturer'' = VNil
         \<or> index flat ''PlantCountry'' = VNil \<or> index flat ''PlantState'' = VNil
         \<or> index flat ''BodyClass'' = VNil \<or> index flat ''EngineCylinders'' = VNil
         \<or> index flat ''FuelTypePrimary'' = VNil"
  shows "\<exists>e. fst (getVehicleByVIN env
                    (snd (upsertVehicle env now w (build_out vin flat))) vin) = Inl e"
proof (cases "exec_fault env vin (exec_args env (build_out vin flat))")
  case (Some m)
  have v: "v_vin (build_out vin flat) = vin" by (simp add: build_out_def)
  have "tbl (snd (upsertVehicle env now w (build_out vin flat))) vin = None"
    by (simp add: upsertVehicle_result v Some assms(1))
  from getVehicleByVIN_absent [OF this, of env] show ?thesis
    by (cases "query_fault env vin") auto
next
  case None
  have v: "v_vin (build_out vin flat) = vin" by (simp add: build_out_def)
  have t: "tbl (snd (upsertVehicle env now w (build_out vin flat))) vin =
             Some (exec_args env (build_out vin flat), insert_default env now)"
    by (simp add: upsertVehicle_result v None assms(1))
  show ?thesis
    by (rule getVehicleByVIN_fails_on_null [OF t]) (simp add: exec_args_columns assms(2))
qed

section \<open>The claims\<close>

text \<open>
  C1. For every non-empty VIN for which the store already holds a record, the handler is
  to return that record and never call the decoder. The code does so when
  \<^verbatim>\<open>getVehicleByVIN\<close> returns a record (lemma \<open>nhtsaHandler_hit\<close>), but a row with a
  \<^verbatim>\<open>NULL\<close> canonical column is not read: \<^verbatim>\<open>Scan\<close> fails and the handler takes the error
  for a miss (lemma \<open>nhtsaHandler_null_row\<close>). The run below starts from the empty table
  with a decoder that answers with an empty \<^verbatim>\<open>Results\<close> list. The first request stores
  the row for the VIN, all nine canonical columns \<^verbatim>\<open>NULL\<close>; the second request for the
  same VIN finds that row, fails to scan it, calls the decoder again and writes again.
\<close>

theorem null_row_fetched_again:
  "(let env = stub_env (ok_answer ''{}'') [] None;
        vin = ''1HGCM82633A004352'';
        w1 = snd (nhtsaHandler env 1 (prefix_nhtsa @ vin) empty_world);
        r2 = nhtsaHandler env 2 (prefix_nhtsa @ vin) w1
    in tbl w1 vin =
         Some (\<lparr>c_make = VNil, c_model = VNil, c_model_year = VNil, c_manufacturer = VNil,
                c_plant_country = VNil, c_plant_state = VNil, c_body_class = VNil,
                c_engine_cylinders = VNil, c_fuel_type = VNil, c_raw = Some ''payload''\<rparr>,
               Some 1)
       \<and> fst (getVehicleByVIN env w1 vin) = Inl (ScanNull 1)
       \<and> trace (snd r2) = trace w1 @ [Query vin, Http (nhtsa_request vin),
            Exec vin \<lparr>c_make = VNil, c_model = VNil, c_model_year = VNil, c_manufacturer = VNil,
                c_plant_country = VNil, c_plant_state = VNil, c_body_class = VNil,
                c_engine_cylinders = VNil, c_fuel_type = VNil, c_raw = Some ''payload''\<rparr>])"
proof -
  let ?env = "stub_env (ok_answer ''{}'') [] None"
  let ?vin = "''1HGCM82633A004352''"
  let ?nulls = "\<lparr>c_make = VNil, c_model = VNil, c_model_year = VNil, c_manufacturer = VNil,
                c_plant_country = VNil, c_plant_state = VNil, c_body_class = VNil,
                c_engine_cylinders = VNil, c_fuel_type = VNil,
                c_raw = Some ''payload''\<rparr> :: int cols"
  let ?w1 = "\<lparr>tbl = [?vin \<mapsto> (?nulls, Some 1)],
             trace = [Query ?vin, Http (nhtsa_request ?vin), Exec ?vin ?nulls]\<rparr>"
  have ne: "?vin \<noteq> []" by simp
  have fetch: "fetchNHTSA (network ?env) (unmarshal_nhtsa ?env) ?vin =
      (Inr \<lparr>Count = 1, Message = ''Results returned successfully'',
            SearchCriteria = [], Results = []\<rparr>, [nhtsa_request ?vin])"
    by (simp add: stubs fetchNHTSA_def)
  have args: "exec_args ?env (build_out ?vin (Some Map.empty)) = ?nulls"
    by (simp add: exec_args_def build_out_def index_def stubs)
  have flat: "first_flat \<lparr>Count = 1, Message = ''Results returned successfully'',
            SearchCriteria = [], Results = ([] :: int gomap list)\<rparr> = Some Map.empty"
    by (simp add: first_flat_def)
  have ok: "exec_fault ?env ?vin ?nulls = None" and dflt: "insert_default ?env = Some"
    and start: "tbl empty_world = Map.empty" "trace empty_world = []"
    by (simp_all add: stubs)
  have miss1: "fst (getVehicleByVIN ?env empty_world ?vin) = Inl ErrNoRows"
    by (simp add: getVehicleByVIN_def stubs)
  have first: "snd (nhtsaHandler ?env 1 (prefix_nhtsa @ ?vin) empty_world) = ?w1"
    unfolding nhtsaHandler_miss_ok [OF ne miss1 fetch] flat
    by (simp add: Let_def args ok dflt start)
  have miss2: "fst (getVehicleByVIN ?env ?w1 ?vin) = Inl (ScanNull 1)"
    by (simp add: getVehicleByVIN_def stubs scan_string_null and_then_Inl)
  have second: "trace (snd (nhtsaHandler ?env 2 (prefix_nhtsa @ ?vin) ?w1)) =
      trace ?w1 @ [Query ?vin, Http (nhtsa_request ?vin), Exec ?vin ?nulls]"
    unfolding nhtsaHandler_miss_ok [OF ne miss2 fetch] flat
    by (simp add: Let_def args ok dflt start)
  show ?thesis
    unfolding Let_def first miss2 second by simp
qed




text \<open>
  C3. For every VIN with no row in the table, when the decoder call fails (whatever the
  failure: the request cannot be built, the transport fails or times out, the body cannot
  be read, the status is not 200, the body does not parse), the handler answers 502 with
  the VIN and the error, which carries the cause; the table is what it was, and the
  handler has issued the one \<^verbatim>\<open>SELECT\<close> and no \<^verbatim>\<open>INSERT\<close>.
\<close>

theorem decode_failure_no_write:
  assumes "vin \<noteq> []"
    and "tbl w vin = None"
    and "fetchNHTSA (network env) (unmarshal_nhtsa env) vin = (Inl err, sent)"
  shows "nhtsaHandler env now (prefix_nhtsa @ vin) w =
           ((502, FailBody vin err), w\<lparr>trace := trace w @ [Query vin] @ map Http sent\<rparr>)
         \<and> tbl (snd (nhtsaHandler env now (prefix_nhtsa @ vin) w)) = tbl w
         \<and> (\<forall>k args. Exec k args \<in> set (trace (snd (nhtsaHandler env now (prefix_nhtsa @ vin) w)))
               \<longrightarrow> Exec k args \<in> set (trace w))"
proof -
  from getVehicleByVIN_absent [OF assms(2), of env]
  obtain e where m: "fst (getVehicleByVIN env w vin) = Inl e"
    by (cases "query_fault env vin") auto
  show ?thesis
    unfolding nhtsaHandler_miss_fail [OF assms(1) m assms(3)] by auto
qed

theorem decode_failure_no_write_witness:
  "nhtsaHandler (stub_env (Inl ''context deadline exceeded'') [] None) 1
       (prefix_nhtsa @ ''BADVIN0000000001'') empty_world =
     ((502, FailBody ''BADVIN0000000001'' (NHttpRequest ''context deadline exceeded'')),
      \<lparr>tbl = Map.empty,
       trace = [Query ''BADVIN0000000001'', Http (nhtsa_request ''BADVIN0000000001'')]\<rparr>)
   \<and> tbl (snd (nhtsaHandler (stub_env (Inl ''context deadline exceeded'') [] None) 1
              (prefix_nhtsa @ ''BADVIN0000000001'') empty_world)) = tbl empty_world"
proof -
  let ?env = "stub_env (Inl ''context deadline exceeded'') [] None"
  have absent: "tbl empty_world ''BADVIN0000000001'' = None"
    by (simp add: stubs)
  have timeout: "fetchNHTSA (network ?env) (unmarshal_nhtsa ?env) ''BADVIN0000000001'' =
      (Inl (NHttpRequest ''context deadline exceeded''), [nhtsa_request ''BADVIN0000000001''])"
    by (simp add: stubs fetchNHTSA_def)
  from decode_failure_no_write [OF _ absent timeout, of 1]
  show ?thesis by (simp add: empty_world_def)
qed

text \<open>
  C4. When the read misses, the decoder call succeeds and \<^verbatim>\<open>upsertVehicle\<close> then fails,
  the handler still answers 200 with the freshly built record; the error goes to the log
  and nowhere else: the answer is the one the handler gives when the \<^verbatim>\<open>INSERT\<close> succeeds.
\<close>

theorem upsert_failure_not_fatal:
  assumes "vin \<noteq> []"
    and "fst (getVehicleByVIN env w vin) = Inl e"
    and "fetchNHTSA (network env) (unmarshal_nhtsa env) vin = (Inr nresp, sent)"
    and "fst (upsertVehicle env now (w\<lparr>trace := trace w @ [Query vin] @ map Http sent\<rparr>)
                (build_out vin (first_flat nresp))) = Some err"
  shows "nhtsaHandler env now (prefix_nhtsa @ vin) w =
           ((200, VehicleBody (build_out vin (first_flat nresp))),
            w\<lparr>trace := trace w @ [Query vin] @ map Http sent
                          @ [Exec vin (exec_args env (build_out vin (first_flat nresp))), Log err]\<rparr>)
         \<and> fst (nhtsaHandler env now (prefix_nhtsa @ vin) w) =
             fst (nhtsaHandler (env\<lparr>exec_fault := \<lambda>k args. None\<rparr>) now (prefix_nhtsa @ vin) w)"
proof -
  have v: "v_vin (build_out vin (first_flat nresp)) = vin" by (simp add: build_out_def)
  from assms(4) obtain m where
    x: "exec_fault env vin (exec_args env (build_out vin (first_flat nresp))) = Some m"
    and err: "err = DriverError m"
    by (auto simp: upsertVehicle_result v split: option.splits)
  have g': "fst (getVehicleByVIN (env\<lparr>exec_fault := \<lambda>k args. None\<rparr>) w vin) = Inl e"
    using assms(2) by (simp add: getVehicleByVIN_exec_fault)
  have f': "fetchNHTSA (network (env\<lparr>exec_fault := \<lambda>k args. None\<rparr>))
              (unmarshal_nhtsa (env\<lparr>exec_fault := \<lambda>k args. None\<rparr>)) vin = (Inr nresp, sent)"
    using assms(3) by simp
  show ?thesis
    unfolding nhtsaHandler_miss_ok [OF assms(1,2,3)] nhtsaHandler_miss_ok [OF assms(1) g' f']
    by (simp add: Let_def x err exec_args_exec_fault)
qed

theorem upsert_failure_not_fatal_witness:
  "nhtsaHandler (stub_env (ok_answer ''{}'') [flat_civic] (Some ''connection refused'')) 1
       (prefix_nhtsa @ ''1HGCM82633A004352'') empty_world =
     ((200, VehicleBody (build_out ''1HGCM82633A004352''
         (first_flat \<lparr>Count = 1, Message = ''Results returned successfully'',
                  SearchCriteria = [], Results = [flat_civic]\<rparr>))),
      empty_world\<lparr>trace := trace empty_world @ [Query ''1HGCM82633A004352'']
          @ map Http [nhtsa_request ''1HGCM82633A004352'']
          @ [Exec ''1HGCM82633A004352''
               (exec_args (stub_env (ok_answer ''{}'') [flat_civic] (Some ''connection refused''))
                  (build_out ''1HGCM82633A004352''
                     (first_flat \<lparr>Count = 1, Message = ''Results returned successfully'',
                  SearchCriteria = [], Results = [flat_civic]\<rparr>))),
             Log (DriverError ''connection refused'')]\<rparr>)
   \<and> fst (nhtsaHandler (stub_env (ok_answer ''{}'') [flat_civic] (Some ''connection refused'')) 1
            (prefix_nhtsa @ ''1HGCM82633A004352'') empty_world) =
       fst (nhtsaHandler
              ((stub_env (ok_answer ''{}'') [flat_civic] (Some ''connection refused''))
                 \<lparr>exec_fault := \<lambda>k args. None\<rparr>) 1
              (prefix_nhtsa @ ''1HGCM82633A004352'') empty_world)"
  by (rule upsert_failure_not_fatal [where e = ErrNoRows])
     (simp_all add: stubs fetchNHTSA_def getVehicleByVIN_def upsertVehicle_result)

text \<open>
  C5. When the read misses and the decoder call succeeds with an empty \<^verbatim>\<open>Results\<close> list,
  the handler answers 200 with the record whose nine canonical fields are absent and
  whose raw payload is the empty map, and it binds that record to the \<^verbatim>\<open>INSERT\<close>: the
  statement is issued, and when it does not fail the table has the row for the VIN, its
  nine canonical columns \<^verbatim>\<open>NULL\<close>.
\<close>

theorem empty_results_cached:
  assumes "vin \<noteq> []"
    and "fst (getVehicleByVIN env w vin) = Inl e"
    and "fetchNHTSA (network env) (unmarshal_nhtsa env) vin = (Inr nresp, sent)"
    and "Results nresp = []"
  shows "fst (nhtsaHandler env now (prefix_nhtsa @ vin) w) =
           (200, VehicleBody
              \<lparr>v_vin = vin, v_make = VNil, v_model = VNil, v_model_year = VNil,
               v_manufacturer = VNil, v_plant_country = VNil, v_plant_state = VNil,
               v_body_class = VNil, v_engine_cylinders = VNil, v_fuel_type = VNil,
               v_raw = Some Map.empty\<rparr>)
         \<and> trace (snd (nhtsaHandler env now (prefix_nhtsa @ vin) w)) =
             trace w @ [Query vin] @ map Http sent
               @ [Exec vin (exec_args env (build_out vin (Some Map.empty)))]
               @ (case exec_fault env vin (exec_args env (build_out vin (Some Map.empty))) of
                    None \<Rightarrow> [] | Some m \<Rightarrow> [Log (DriverError m)])
         \<and> (exec_fault env vin (exec_args env (build_out vin (Some Map.empty))) = None \<longrightarrow>
              map_option fst (tbl (snd (nhtsaHandler env now (prefix_nhtsa @ vin) w)) vin) =
                Some \<lparr>c_make = VNil, c_model = VNil, c_model_year = VNil,
                      c_manufacturer = VNil, c_plant_country = VNil, c_plant_state = VNil,
                      c_body_class = VNil, c_engine_cylinders = VNil, c_fuel_type = VNil,
                      c_raw = (case marshal_map env (Some Map.empty) of
                                 Inl e \<Rightarrow> None | Inr b \<Rightarrow> Some b)\<rparr>)"
proof -
  have ff: "first_flat nresp = Some Map.empty" by (simp add: first_flat_def assms(4))
  have out: "build_out vin (Some Map.empty) =
              \<lparr>v_vin = vin, v_make = VNil, v_model = VNil, v_model_year = VNil,
               v_manufacturer = VNil, v_plant_country = VNil, v_plant_state = VNil,
               v_body_class = VNil, v_engine_cylinders = VNil, v_fuel_type = (VNil :: 'a goval),
               v_raw = Some Map.empty\<rparr>"
    by (simp add: build_out_def index_def)
  have args: "exec_args env (build_out vin (Some Map.empty)) =
               \<lparr>c_make = VNil, c_model = VNil, c_model_year = VNil,
                      c_manufacturer = VNil, c_plant_country = VNil, c_plant_state = VNil,
                      c_body_class = VNil, c_engine_cylinders = VNil, c_fuel_type = VNil,
                      c_raw = (case marshal_map env (Some Map.empty) of
                                 Inl e \<Rightarrow> None | Inr b \<Rightarrow> Some b)\<rparr>"
    by (simp add: exec_args_def out)
  show ?thesis
    unfolding nhtsaHandler_miss_ok [OF assms(1,2,3)] ff
    by (simp add: Let_def out [symmetric] args [symmetric] split: option.split)
qed

theorem empty_results_cached_witness:
  "fst (nhtsaHandler (stub_env (ok_answer ''{}'') [] None) 1
          (prefix_nhtsa @ ''1HGCM82633A004352'') empty_world) =
     (200, VehicleBody
        \<lparr>v_vin = ''1HGCM82633A004352'', v_make = VNil, v_model = VNil, v_model_year = VNil,
         v_manufacturer = VNil, v_plant_country = VNil, v_plant_state = VNil,
         v_body_class = VNil, v_engine_cylinders = VNil, v_fuel_type = VNil,
         v_raw = Some Map.empty\<rparr>)
   \<and> map_option fst (tbl (snd (nhtsaHandler (stub_env (ok_answer ''{}'') [] None) 1
          (prefix_nhtsa @ ''1HGCM82633A004352'') empty_world)) ''1HGCM82633A004352'') =
       Some \<lparr>c_make = VNil, c_model = VNil, c_model_year = VNil,
             c_manufacturer = VNil, c_plant_country = VNil, c_plant_state = VNil,
             c_body_class = VNil, c_engine_cylinders = VNil, c_fuel_type = VNil,
             c_raw = Some ''payload''\<rparr>"
proof -
  let ?env = "stub_env (ok_answer ''{}'') [] None"
  have m: "fst (getVehicleByVIN ?env empty_world ''1HGCM82633A004352'') = Inl ErrNoRows"
    by (simp add: stubs getVehicleByVIN_def)
  have f: "fetchNHTSA (network ?env) (unmarshal_nhtsa ?env) ''1HGCM82633A004352'' =
             (Inr \<lparr>Count = 1, Message = ''Results returned successfully'',
                  SearchCriteria = [], Results = []\<rparr>, [nhtsa_request ''1HGCM82633A004352''])"
    by (simp add: stubs fetchNHTSA_def)
  have x: "exec_fault ?env ''1HGCM82633A004352''
             (exec_args ?env (build_out ''1HGCM82633A004352'' (Some Map.empty))) = None"
    by (simp add: stubs)
  have c: "marshal_map ?env (Some Map.empty) = Inr ''payload''"
    by (simp add: stubs)
  from empty_results_cached [OF _ m f, of 1] x c show ?thesis by simp
qed

text \<open>
  C6. In the JD Power client, a response that arrived with HTTP status 200 and a body
  that parsed, but whose business status is not \<^verbatim>\<open>ExactMatch\<close>, is a failure that carries
  that status, and the handler turns it into a 502.
\<close>

theorem business_status_rejected:
  assumes "vin \<noteq> []"
    and "new_request nw (BaseURL cfg @ ''/UsedPowersportsService.svc/VINV2/'' @ vin) = None"
    and "client_do nw
           \<lparr>req_method = ''GET'',
            req_url = BaseURL cfg @ ''/UsedPowersportsService.svc/VINV2/'' @ vin,
            req_header = [(''UserName'', JDPUser cfg), (''password'', JDPPass cfg)]\<rparr> = Inr resp"
    and "StatusCode resp = 200"
    and "Body resp = Inr body"
    and "unmarshal body = Inr apiResp"
    and "Status apiResp \<noteq> ''ExactMatch''"
  shows "fst (fetchVIN nw unmarshal cfg vin) = Inl (StatusDaAPI (Status apiResp))
         \<and> fst (vinHandler nw unmarshal cfg (''/vin/'' @ vin)) =
             (502, Inl (Inr (vin, StatusDaAPI (Status apiResp))))"
proof -
  have f: "fst (fetchVIN nw unmarshal cfg vin) = Inl (StatusDaAPI (Status apiResp))"
    using assms by (simp add: fetchVIN_def Let_def)
  then show ?thesis
    using assms(1) by (auto simp: vinHandler_def Let_def split: prod.split sum.split)
qed

theorem business_status_rejected_witness:
  "fst (fetchVIN (stub_net (ok_answer ''{}'')) (stub_api ''NoRecordsFound'') stub_cfg
          ''JS1GR7MA8J2100001'') =
     Inl (StatusDaAPI (Status \<lparr>Status = ''NoRecordsFound'', Models = [], VintageModels = []\<rparr>))
   \<and> fst (vinHandler (stub_net (ok_answer ''{}'')) (stub_api ''NoRecordsFound'') stub_cfg
            (''/vin/'' @ ''JS1GR7MA8J2100001'')) =
       (502, Inl (Inr (''JS1GR7MA8J2100001'',
          StatusDaAPI (Status \<lparr>Status = ''NoRecordsFound'', Models = [], VintageModels = []\<rparr>))))"
  by (rule business_status_rejected [where resp = "\<lparr>StatusCode = 200, Body = Inr ''{}''\<rparr>"
        and body = "''{}''"])
     (simp_all add: stubs)

text \<open>
  C7. \<^verbatim>\<open>upsertVehicle\<close> twice with the same record, at times \<open>now\<close> and \<open>later\<close>, against
  once: the second call fails exactly when the first does; every row has the same ten
  columns after two calls as after one, so \<^verbatim>\<open>getVehicleByVIN\<close> returns the same for every
  VIN; only \<^verbatim>\<open>last_updated\<close> moves, to the time of the last write. A call that succeeds
  creates the row of the VIN or replaces its ten columns, in one step, and touches no
  other row; a call that fails leaves the table as it was.
\<close>

theorem upsert_idempotent:
  "(let r1 = upsertVehicle env now w out;
        r2 = upsertVehicle env later (snd r1) out
    in fst r2 = fst r1
       \<and> (\<forall>k. map_option fst (tbl (snd r2) k) = map_option fst (tbl (snd r1) k))
       \<and> (\<forall>k. fst (getVehicleByVIN env (snd r2) k) = fst (getVehicleByVIN env (snd r1) k))
       \<and> (fst r1 = None \<longrightarrow>
            tbl (snd r1) = (tbl w)(v_vin out \<mapsto>
               (exec_args env out,
                case tbl w (v_vin out) of None \<Rightarrow> insert_default env now | Some old \<Rightarrow> Some now))
            \<and> tbl (snd r2) = (tbl w)(v_vin out \<mapsto> (exec_args env out, Some later)))
       \<and> (fst r1 \<noteq> None \<longrightarrow> tbl (snd r1) = tbl w \<and> tbl (snd r2) = tbl w))"
proof -
  have cols: "map_option fst (tbl (snd (upsertVehicle env later (snd (upsertVehicle env now w out)) out)) k)
            = map_option fst (tbl (snd (upsertVehicle env now w out)) k)" for k
    by (simp add: upsertVehicle_result split: option.split)
  show ?thesis
    unfolding Let_def
    apply (intro conjI allI)
    subgoal by (simp add: upsertVehicle_result split: option.split)
    subgoal by (rule cols)
    subgoal by (rule getVehicleByVIN_columns) (rule cols)
    subgoal by (simp add: upsertVehicle_result split: option.split)
    subgoal by (simp add: upsertVehicle_result split: option.split)
    done
qed

theorem upsert_idempotent_witness:
  "(let env = stub_env (ok_answer ''{}'') [flat_strings] None;
        out = build_out ''1HGCM82633A004352'' flat_strings;
        r1 = upsertVehicle env 1 empty_world out;
        r2 = upsertVehicle env 2 (snd r1) out
    in fst r1 = None \<and> fst r2 = fst r1
       \<and> tbl (snd r1) = (tbl empty_world)(v_vin out \<mapsto> (exec_args env out, Some 1))
       \<and> tbl (snd r2) = (tbl empty_world)(v_vin out \<mapsto> (exec_args env out, Some 2))
       \<and> fst (getVehicleByVIN env (snd r2) ''1HGCM82633A004352'') =
           fst (getVehicleByVIN env (snd r1) ''1HGCM82633A004352''))"
proof -
  let ?env = "stub_env (ok_answer ''{}'') [flat_strings] None"
  let ?out = "build_out ''1HGCM82633A004352'' flat_strings"
  have ok: "fst (upsertVehicle ?env 1 empty_world ?out) = None"
    by (simp add: upsertVehicle_result stubs)
  have d: "insert_default ?env 1 = Some 1" "tbl empty_world (v_vin ?out) = None"
    by (simp_all add: stubs)
  from upsert_idempotent [where env = ?env and now = 1 and later = 2 and w = empty_world and out = ?out] ok
  show ?thesis
    unfolding Let_def d by (simp add: d)
qed

text \<open>
  C8. Building the record from a raw decoder mapping, storing it with \<^verbatim>\<open>upsertVehicle\<close>
  and reading it back with \<^verbatim>\<open>getVehicleByVIN\<close> is to give the canonical fields of the
  direct mapping and the raw mapping again. The code does so for a mapping whose nine
  source keys hold strings (lemma \<open>roundtrip_of_strings\<close>), and never for a mapping with
  a missing or null source key (lemma \<open>roundtrip_fails_on_missing_key\<close>). The runs below
  start from the empty table. The answer \<^verbatim>\<open>{Make: "Honda", Model: "Civic", ModelYear: "2020"}\<close>
  is stored by a driver that takes strings only, with \<^verbatim>\<open>NULL\<close> in the six other columns,
  and the read-back fails on \<^verbatim>\<open>manufacturer\<close>, the column of index 4. The answer of the
  spec's scenario, with the number 2020, reads back as the same error when the driver
  accepts the number, and as \<^verbatim>\<open>sql.ErrNoRows\<close> when the driver refuses it.
\<close>

theorem roundtrip_read_fails:
  "(let env = strict_env (ok_answer ''{}'') [flat_partial];
        vin = ''1HGCM82633A004352'';
        wrote = upsertVehicle env 1 empty_world (build_out vin flat_partial)
    in fst wrote = None
       \<and> tbl (snd wrote) vin =
           Some (\<lparr>c_make = VString ''Honda'', c_model = VString ''Civic'',
                  c_model_year = VString ''2020'', c_manufacturer = VNil,
                  c_plant_country = VNil, c_plant_state = VNil, c_body_class = VNil,
                  c_engine_cylinders = VNil, c_fuel_type = VNil, c_raw = Some ''payload''\<rparr>,
                 Some 1)
       \<and> fst (getVehicleByVIN env (snd wrote) vin) = Inl (ScanNull 4))
   \<and> fst (getVehicleByVIN (stub_env (ok_answer ''{}'') [flat_civic] None)
            (snd (upsertVehicle (stub_env (ok_answer ''{}'') [flat_civic] None) 1 empty_world
                    (build_out ''1HGCM82633A004352'' flat_civic)))
            ''1HGCM82633A004352'') = Inl (ScanNull 4)
   \<and> fst (getVehicleByVIN (strict_env (ok_answer ''{}'') [flat_civic])
            (snd (upsertVehicle (strict_env (ok_answer ''{}'') [flat_civic]) 1 empty_world
                    (build_out ''1HGCM82633A004352'' flat_civic)))
            ''1HGCM82633A004352'') = Inl ErrNoRows"
proof (intro conjI)
  let ?vin = "''1HGCM82633A004352''"
  let ?env = "strict_env (ok_answer ''{}'') [flat_partial]"
  let ?row = "\<lparr>c_make = VString ''Honda'', c_model = VString ''Civic'',
                  c_model_year = VString ''2020'', c_manufacturer = VNil,
                  c_plant_country = VNil, c_plant_state = VNil, c_body_class = VNil,
                  c_engine_cylinders = VNil, c_fuel_type = VNil,
                  c_raw = Some ''payload''\<rparr> :: int cols"
  have args: "exec_args ?env (build_out ?vin flat_partial) = ?row"
    by (simp add: exec_args_def build_out_def index_def flat_partial_def stubs)
  have taken: "exec_fault ?env ?vin ?row = None"
    by (simp add: stubs)
  have v: "v_vin (build_out ?vin flat_partial) = ?vin" by (simp add: build_out_def)
  have wrote: "upsertVehicle ?env 1 empty_world (build_out ?vin flat_partial) =
      (None, \<lparr>tbl = [?vin \<mapsto> (?row, Some 1)], trace = [Exec ?vin ?row]\<rparr>)"
    unfolding upsertVehicle_result v args taken by (simp add: stubs)
  have read: "fst (getVehicleByVIN ?env
                \<lparr>tbl = [?vin \<mapsto> (?row, Some 1)], trace = [Exec ?vin ?row]\<rparr> ?vin) =
              Inl (ScanNull 4)"
    by (simp add: getVehicleByVIN_def stubs scan_string_def and_then_def)
  show "(let env = ?env; vin = ?vin;
             wrote = upsertVehicle env 1 empty_world (build_out vin flat_partial)
         in fst wrote = None
            \<and> tbl (snd wrote) vin = Some (?row, Some 1)
            \<and> fst (getVehicleByVIN env (snd wrote) vin) = Inl (ScanNull 4))"
    unfolding Let_def wrote using read by simp
  show "fst (getVehicleByVIN (stub_env (ok_answer ''{}'') [flat_civic] None)
            (snd (upsertVehicle (stub_env (ok_answer ''{}'') [flat_civic] None) 1 empty_world
                    (build_out ?vin flat_civic))) ?vin) = Inl (ScanNull 4)"
    by (simp add: stubs handler_code flat_civic_def Let_def)
  show "fst (getVehicleByVIN (strict_env (ok_answer ''{}'') [flat_civic])
            (snd (upsertVehicle (strict_env (ok_answer ''{}'') [flat_civic]) 1 empty_world
                    (build_out ?vin flat_civic))) ?vin) = Inl ErrNoRows"
    by (simp add: stubs handler_code flat_civic_def Let_def)
qed

text \<open>
  C9. A request with an empty VIN segment is answered 400 by each handler with the world
  untouched: no \<^verbatim>\<open>SELECT\<close>, no \<^verbatim>\<open>INSERT\<close> and no HTTP request. Both clients refuse the
  empty VIN before they send anything.
\<close>

theorem empty_vin_rejected:
  "nhtsaHandler env now prefix_nhtsa w = ((400, ErrorBody ''use /nhtsa/{vin}''), w)
   \<and> fetchNHTSA nw unmarshal [] = (Inl NVinVazio, [])
   \<and> nhtsaHandler_v1 nw unmarshal prefix_nhtsa = ((400, ErrorBody ''use /nhtsa/{vin}''), [])
   \<and> fetchVIN nw unmarshal' cfg [] = (Inl VinVazio, [])
   \<and> vinHandler nw unmarshal' cfg ''/vin/'' = ((400, Inl (Inl ''vin ausente; use /vin/{vin}'')), [])"
proof (intro conjI)
  show "nhtsaHandler env now prefix_nhtsa w = ((400, ErrorBody ''use /nhtsa/{vin}''), w)"
    by (simp add: nhtsaHandler_def)
  show "fetchNHTSA nw unmarshal [] = (Inl NVinVazio, [])"
    by (simp add: fetchNHTSA_def)
  show "nhtsaHandler_v1 nw unmarshal prefix_nhtsa = ((400, ErrorBody ''use /nhtsa/{vin}''), [])"
    by (simp add: nhtsaHandler_v1_def)
  show "fetchVIN nw unmarshal' cfg [] = (Inl VinVazio, [])"
    by (simp add: fetchVIN_def)
  show "vinHandler nw unmarshal' cfg ''/vin/'' =
          ((400, Inl (Inl ''vin ausente; use /vin/{vin}'')), [])"
    by (simp add: vinHandler_def)
qed

text \<open>
  C10. When the read misses and the decoder call succeeds with two or more entries in
  \<^verbatim>\<open>Results\<close>, everything the handler does is fixed by the first entry \<open>r0\<close>: the record it
  answers with, the values it binds to the \<^verbatim>\<open>INSERT\<close> and the row it leaves in the table.
  The later entries \<open>r1\<close> and \<open>rest\<close> appear nowhere. The same holds for the variant
  without a store.
\<close>

theorem only_first_result_used:
  assumes "vin \<noteq> []"
    and "fst (getVehicleByVIN env w vin) = Inl e"
    and "fetchNHTSA (network env) (unmarshal_nhtsa env) vin = (Inr nresp, sent)"
    and "Results nresp = r0 # r1 # rest"
  shows "nhtsaHandler env now (prefix_nhtsa @ vin) w =
           (let out = build_out vin r0;
                args = exec_args env out;
                tr = trace w @ [Query vin] @ map Http sent @ [Exec vin args]
            in ((200, VehicleBody out),
                case exec_fault env vin args of
                  Some m \<Rightarrow> w\<lparr>trace := tr @ [Log (DriverError m)]\<rparr>
                | None \<Rightarrow>
                    \<lparr>tbl = (tbl w)(vin \<mapsto>
                             (args, case tbl w vin of
                                      None \<Rightarrow> insert_default env now
                                    | Some old \<Rightarrow> Some now)),
                     trace = tr\<rparr>))
         \<and> nhtsaHandler_v1 (network env) (unmarshal_nhtsa env) (prefix_nhtsa @ vin) =
             ((200, VehicleBody (build_out vin r0)), sent)"
proof -
  have ff: "first_flat nresp = r0" by (simp add: first_flat_def assms(4))
  have v1: "nhtsaHandler_v1 (network env) (unmarshal_nhtsa env) (prefix_nhtsa @ vin) =
             ((200, VehicleBody (build_out vin r0)), sent)"
    using assms(1) by (simp add: nhtsaHandler_v1_def assms(3) ff)
  show ?thesis
    unfolding nhtsaHandler_miss_ok [OF assms(1,2,3)] ff v1 by simp
qed

theorem only_first_result_used_witness:
  "nhtsaHandler_v1 (network (stub_env (ok_answer ''{}'') [flat_civic, flat_strings, None] None))
       (unmarshal_nhtsa (stub_env (ok_answer ''{}'') [flat_civic, flat_strings, None] None))
       (prefix_nhtsa @ ''1HGCM82633A004352'') =
     ((200, VehicleBody (build_out ''1HGCM82633A004352'' flat_civic)),
      [nhtsa_request ''1HGCM82633A004352''])
   \<and> fst (nhtsaHandler (stub_env (ok_answer ''{}'') [flat_civic, flat_strings, None] None) 1
       (prefix_nhtsa @ ''1HGCM82633A004352'') empty_world) =
       (200, VehicleBody (build_out ''1HGCM82633A004352'' flat_civic))
   \<and> map_option fst (tbl (snd (nhtsaHandler (stub_env (ok_answer ''{}'') [flat_civic, flat_strings, None] None) 1
       (prefix_nhtsa @ ''1HGCM82633A004352'') empty_world)) ''1HGCM82633A004352'') =
       Some (exec_args (stub_env (ok_answer ''{}'') [flat_civic, flat_strings, None] None)
               (build_out ''1HGCM82633A004352'' flat_civic))"
proof -
  let ?env = "stub_env (ok_answer ''{}'') [flat_civic, flat_strings, None] None"
  have m: "fst (getVehicleByVIN ?env empty_world ''1HGCM82633A004352'') = Inl ErrNoRows"
    by (simp add: stubs getVehicleByVIN_def)
  have f: "fetchNHTSA (network ?env) (unmarshal_nhtsa ?env) ''1HGCM82633A004352'' =
             (Inr \<lparr>Count = 1, Message = ''Results returned successfully'',
                  SearchCriteria = [], Results = [flat_civic, flat_strings, None]\<rparr>,
              [nhtsa_request ''1HGCM82633A004352''])"
    by (simp add: stubs fetchNHTSA_def)
  have x: "exec_fault ?env ''1HGCM82633A004352''
             (exec_args ?env (build_out ''1HGCM82633A004352'' flat_civic)) = None"
    by (simp add: stubs)
  from only_first_result_used [OF _ m f, of flat_civic flat_strings "[None]" 1] x
  show ?thesis by (simp add: Let_def)
qed

end
